theory Spec2Isabelle
  imports Main
begin

section \<open>Shadow-Bind notifications: dispatcher, batching queue, click routing\<close>

text \<open>
  A shallow embedding of \<^verbatim>\<open>src/lib/notifications/service.js\<close> (class
  \<^verbatim>\<open>NotificationsService\<close>) and of \<^verbatim>\<open>src/public/sw-notifications.js\<close>
  (the notification service worker). Mutable fields of the service object become a
  record that every method takes and returns; the clock, the random id source and the
  local hour are inputs of the call that reads them.
\<close>

subsection \<open>JavaScript values carried in payloads\<close>

text \<open>
  Payload objects (\<^verbatim>\<open>data\<close>) map property names to values. The values that
  occur in the two files are strings (ids, urls, category and priority names), numbers
  (timestamps, counts), booleans, \<^verbatim>\<open>null\<close> and arrays of notification ids (an id
  that is \<^verbatim>\<open>undefined\<close> is \<open>None\<close>). A missing property reads as
  \<^verbatim>\<open>undefined\<close>, which is \<open>None\<close> here.
\<close>

datatype jsval = JStr string | JNum nat | JBool bool | JNull | JIds "string option list"

type_synonym payload = "string \<rightharpoonup> jsval"

text \<open>\<^verbatim>\<open>if (v)\<close>: the empty string, 0, false, null and undefined are falsy.\<close>

fun truthy :: "jsval option \<Rightarrow> bool" where
  "truthy None = False"
| "truthy (Some (JStr s)) = (s \<noteq> [])"
| "truthy (Some (JNum n)) = (n \<noteq> 0)"
| "truthy (Some (JBool b)) = b"
| "truthy (Some JNull) = False"
| "truthy (Some (JIds xs)) = True"

definition digit_char :: "nat \<Rightarrow> char" where
  "digit_char d =
     (if d = 0 then CHR ''0'' else if d = 1 then CHR ''1'' else if d = 2 then CHR ''2''
      else if d = 3 then CHR ''3'' else if d = 4 then CHR ''4'' else if d = 5 then CHR ''5''
      else if d = 6 then CHR ''6'' else if d = 7 then CHR ''7'' else if d = 8 then CHR ''8''
      else CHR ''9'')"

text \<open>The decimal text of a non-negative integer, as a template literal prints it.\<close>

fun string_of_nat :: "nat \<Rightarrow> string" where
  "string_of_nat n =
     (if n < 10 then [digit_char n] else string_of_nat (n div 10) @ [digit_char (n mod 10)])"

declare string_of_nat.simps [simp del]

fun join_comma :: "string list \<Rightarrow> string" where
  "join_comma [] = []"
| "join_comma [x] = x"
| "join_comma (x # y # ys) = x @ '','' @ join_comma (y # ys)"

text \<open>\<^verbatim>\<open>`${v}`\<close>: the text a template literal inserts for a value.\<close>

fun template :: "jsval option \<Rightarrow> string" where
  "template None = ''undefined''"
| "template (Some (JStr s)) = s"
| "template (Some (JNum n)) = string_of_nat n"
| "template (Some (JBool b)) = (if b then ''true'' else ''false'')"
| "template (Some JNull) = ''null''"
| "template (Some (JIds xs)) = join_comma (map (\<lambda>x. case x of None \<Rightarrow> [] | Some i \<Rightarrow> i) xs)"

subsection \<open>Configuration (\<^verbatim>\<open>NOTIFICATIONS_CONFIG\<close>)\<close>

abbreviation MESSAGE :: string where "MESSAGE \<equiv> ''message''"
abbreviation GROUP_INVITE :: string where "GROUP_INVITE \<equiv> ''group_invite''"
abbreviation MENTION :: string where "MENTION \<equiv> ''mention''"
abbreviation FILE_SHARE :: string where "FILE_SHARE \<equiv> ''file_share''"
abbreviation SYSTEM :: string where "SYSTEM \<equiv> ''system''"
abbreviation SECURITY :: string where "SECURITY \<equiv> ''security''"

abbreviation HIGH :: string where "HIGH \<equiv> ''high''"
abbreviation NORMAL :: string where "NORMAL \<equiv> ''normal''"
abbreviation LOW :: string where "LOW \<equiv> ''low''"

definition CATEGORIES :: "string list" where
  "CATEGORIES = [MESSAGE, GROUP_INVITE, MENTION, FILE_SHARE, SYSTEM, SECURITY]"

definition BATCH_SIZE :: nat where
  "BATCH_SIZE = 10"

definition BATCH_DELAY :: nat where
  "BATCH_DELAY = 5000"

subsection \<open>Preferences and the preference gate\<close>

record schedule =
  sched_start :: int
  sched_end :: int

text \<open>
  \<^verbatim>\<open>this.preferences\<close> is \<^verbatim>\<open>null\<close> until \<^verbatim>\<open>loadPreferences\<close> or
  \<^verbatim>\<open>updatePreferences\<close> stores an object. The gate tests \<^verbatim>\<open>categories\<close> and
  \<^verbatim>\<open>doNotDisturbSchedule\<close> for presence and \<^verbatim>\<open>doNotDisturb\<close> for truthiness
  (a missing flag is \<open>False\<close>).
\<close>

record notification_preferences =
  categories :: "(string \<rightharpoonup> bool) option"
  doNotDisturb :: bool
  doNotDisturbSchedule :: "schedule option"

text \<open>
  The table \<open>categories\<close> gives the outcome of the property read
  \<^verbatim>\<open>categories[category]\<close>: \<open>Some True\<close> for a truthy value, \<open>Some False\<close>
  for a falsy one, \<open>None\<close> for \<^verbatim>\<open>undefined\<close>. Such a read on an object literal
  also finds the properties every object inherits, all of them truthy.
\<close>

definition OBJECT_PROTOTYPE_NAMES :: "string list" where
  "OBJECT_PROTOTYPE_NAMES =
     [''constructor'', ''hasOwnProperty'', ''isPrototypeOf'', ''propertyIsEnumerable'',
      ''toLocaleString'', ''toString'', ''valueOf'', ''__proto__'', ''__defineGetter__'',
      ''__defineSetter__'', ''__lookupGetter__'', ''__lookupSetter__'']"

text \<open>\<^verbatim>\<open>loadPreferences\<close>: the object stored at initialisation.\<close>

definition loadPreferences :: notification_preferences where
  "loadPreferences =
     \<lparr> categories = Some (\<lambda>c. if c \<in> set CATEGORIES \<or> c \<in> set OBJECT_PROTOTYPE_NAMES
                              then Some True else None),
       doNotDisturb = False,
       doNotDisturbSchedule = Some \<lparr> sched_start = 22, sched_end = 8 \<rparr> \<rparr>"

text \<open>\<^verbatim>\<open>isDoNotDisturbTime\<close>; the second argument is \<^verbatim>\<open>new Date().getHours()\<close>.\<close>

definition isDoNotDisturbTime :: "notification_preferences option \<Rightarrow> int \<Rightarrow> bool" where
  "isDoNotDisturbTime prefs hour =
     (case prefs of
        None \<Rightarrow> False
      | Some p \<Rightarrow>
          (case doNotDisturbSchedule p of
             None \<Rightarrow> False
           | Some sc \<Rightarrow>
               if sched_start sc \<le> sched_end sc
               then hour \<ge> sched_start sc \<and> hour < sched_end sc
               else hour \<ge> sched_start sc \<or> hour < sched_end sc))"

text \<open>
  \<^verbatim>\<open>shouldSendNotification(category, priority, userId)\<close>; \<^verbatim>\<open>userId\<close> is not read
  by the body. \<^verbatim>\<open>!this.preferences.categories[category]\<close> holds for a category
  whose read is falsy or \<^verbatim>\<open>undefined\<close>.
\<close>

definition shouldSendNotification ::
  "notification_preferences option \<Rightarrow> int \<Rightarrow> string \<Rightarrow> string \<Rightarrow> bool" where
  "shouldSendNotification prefs hour category priority =
     (case prefs of
        None \<Rightarrow> True
      | Some p \<Rightarrow>
          if (case categories p of None \<Rightarrow> False | Some cm \<Rightarrow> cm category \<noteq> Some True)
          then False
          else if doNotDisturb p \<and> isDoNotDisturbTime prefs hour
          then priority = HIGH
          else True)"

subsection \<open>Notification objects\<close>

record notification_action =
  act_action :: string
  act_title :: string

text \<open>
  The \<^verbatim>\<open>options\<close> object given to the browser. A summary notification's options
  carry no \<^verbatim>\<open>actions\<close>, \<^verbatim>\<open>image\<close> or \<^verbatim>\<open>renotify\<close> (\<open>None\<close>);
  \<^verbatim>\<open>image: null\<close> is \<open>None\<close> as well.
\<close>

record notification_options =
  opt_icon :: string
  opt_badge :: string
  opt_vibrate :: "nat list"
  opt_requireInteraction :: bool
  opt_silent :: bool
  opt_body :: string
  opt_data :: payload
  opt_actions :: "notification_action list option"
  opt_image :: "string option"
  opt_tag :: string
  opt_renotify :: "bool option"

text \<open>
  The notification object of \<^verbatim>\<open>sendNotification\<close> and the summary object of
  \<^verbatim>\<open>sendGroupedNotification\<close>; the latter has no \<^verbatim>\<open>actions\<close>,
  \<^verbatim>\<open>image\<close>, \<^verbatim>\<open>userId\<close>, \<^verbatim>\<open>timestamp\<close> or \<^verbatim>\<open>id\<close>.
\<close>

record notification =
  n_title :: string
  n_body :: string
  n_category :: string
  n_priority :: string
  n_data :: payload
  n_actions :: "notification_action list option"
  n_image :: "string option"
  n_userId :: "string option"
  n_timestamp :: "nat option"
  n_id :: "string option"
  n_options :: notification_options

text \<open>
  The argument of \<^verbatim>\<open>sendNotification\<close>. \<^verbatim>\<open>title\<close> and \<^verbatim>\<open>body\<close> are
  taken as they come; the other properties have defaults when they are missing.
\<close>

record notificationData =
  nd_title :: string
  nd_body :: string
  nd_category :: "string option"
  nd_priority :: "string option"
  nd_data :: "payload option"
  nd_actions :: "notification_action list option"
  nd_image :: "string option"
  nd_userId :: "string option"

text \<open>
  What one call of \<^verbatim>\<open>sendNotification\<close> reads from its surroundings: the local
  hour (\<^verbatim>\<open>new Date().getHours()\<close>), the three readings of \<^verbatim>\<open>Date.now()\<close> in
  the order the object literal takes them, and the digits
  \<^verbatim>\<open>Math.random().toString(36).substr(2, 9)\<close>.
\<close>

record call_env =
  env_hour :: int
  env_now_timestamp :: nat
  env_now_id :: nat
  env_random :: string
  env_now_data :: nat

definition DEFAULT_icon :: string where
  "DEFAULT_icon = ''/icon-192x192.png''"

definition DEFAULT_badge :: string where
  "DEFAULT_badge = ''/badge-72x72.png''"

definition DEFAULT_vibrate :: "nat list" where
  "DEFAULT_vibrate = [100, 50, 100]"

definition category_of :: "notificationData \<Rightarrow> string" where
  "category_of d = (case nd_category d of None \<Rightarrow> MESSAGE | Some c \<Rightarrow> c)"

definition priority_of :: "notificationData \<Rightarrow> string" where
  "priority_of d = (case nd_priority d of None \<Rightarrow> NORMAL | Some p \<Rightarrow> p)"

definition data_of :: "notificationData \<Rightarrow> payload" where
  "data_of d = (case nd_data d of None \<Rightarrow> Map.empty | Some m \<Rightarrow> m)"

definition actions_of :: "notificationData \<Rightarrow> notification_action list" where
  "actions_of d = (case nd_actions d of None \<Rightarrow> [] | Some as \<Rightarrow> as)"

definition generateNotificationId :: "nat \<Rightarrow> string \<Rightarrow> string" where
  "generateNotificationId now rnd = ''notif_'' @ string_of_nat now @ ''_'' @ rnd"

text \<open>\<^verbatim>\<open>userId || 'system'\<close>: \<^verbatim>\<open>null\<close> and the empty string give \<^verbatim>\<open>'system'\<close>.\<close>

definition userId_or_system :: "string option \<Rightarrow> string" where
  "userId_or_system u = (case u of None \<Rightarrow> ''system'' | Some i \<Rightarrow> if i = [] then ''system'' else i)"

text \<open>The object literal \<^verbatim>\<open>notification\<close> of \<^verbatim>\<open>sendNotification\<close>.\<close>

definition notification_object :: "call_env \<Rightarrow> notificationData \<Rightarrow> notification" where
  "notification_object env d =
     \<lparr> n_title = nd_title d,
       n_body = nd_body d,
       n_category = category_of d,
       n_priority = priority_of d,
       n_data = data_of d,
       n_actions = Some (actions_of d),
       n_image = nd_image d,
       n_userId = nd_userId d,
       n_timestamp = Some (env_now_timestamp env),
       n_id = Some (generateNotificationId (env_now_id env) (env_random env)),
       n_options =
         \<lparr> opt_icon = DEFAULT_icon,
           opt_badge = DEFAULT_badge,
           opt_vibrate = DEFAULT_vibrate,
           opt_requireInteraction = False,
           opt_silent = False,
           opt_body = nd_body d,
           opt_data = (data_of d)(''category'' \<mapsto> JStr (category_of d),
                                  ''priority'' \<mapsto> JStr (priority_of d),
                                  ''timestamp'' \<mapsto> JNum (env_now_data env)),
           opt_actions = Some (actions_of d),
           opt_image = nd_image d,
           opt_tag = category_of d @ ''_'' @ userId_or_system (nd_userId d),
           opt_renotify = Some (priority_of d = HIGH) \<rparr> \<rparr>"

subsection \<open>The service object\<close>

text \<open>
  The fields of \<^verbatim>\<open>NotificationsService\<close> that the dispatcher and the queue use.
  \<^verbatim>\<open>batchTimer\<close> is \<open>True\<close> while a timeout handle is stored. \<open>sink\<close> is the
  delivery boundary: the notifications handed to \<^verbatim>\<open>sendImmediateNotification\<close>,
  in order.
\<close>

record service =
  batchQueue :: "notification list"
  batchTimer :: bool
  notificationHistory :: "notification list"
  preferences :: "notification_preferences option"
  sink :: "notification list"

text \<open>The constructor.\<close>

definition new_service :: service where
  "new_service =
     \<lparr> batchQueue = [], batchTimer = False, notificationHistory = [],
       preferences = None, sink = [] \<rparr>"

text \<open>
  \<^verbatim>\<open>sendImmediateNotification\<close> posts the notification to the active service
  worker (\<^verbatim>\<open>SHOW_NOTIFICATION\<close>) or, without one, shows it directly. Either way the
  notification leaves the service here; what each path puts on screen is
  \<open>handlePushNotification\<close> and \<open>showDirectNotification\<close> below. The browser
  interfaces themselves (the registration lookup, \<^verbatim>\<open>postMessage\<close>, the
  \<^verbatim>\<open>Notification\<close> constructor) are taken to succeed.
\<close>

definition sendImmediateNotification :: "notification \<Rightarrow> service \<Rightarrow> service" where
  "sendImmediateNotification n s = s\<lparr> sink := sink s @ [n] \<rparr>"

text \<open>
  \<^verbatim>\<open>getCategoryTitle\<close>: \<^verbatim>\<open>titles[category] || 'Notifications'\<close>.
\<close>

definition getCategoryTitle :: "string \<Rightarrow> string" where
  "getCategoryTitle category =
     (if category = MESSAGE then ''New Messages''
      else if category = GROUP_INVITE then ''Group Invitations''
      else if category = MENTION then ''Mentions''
      else if category = FILE_SHARE then ''File Shares''
      else if category = SYSTEM then ''System Notifications''
      else if category = SECURITY then ''Security Alerts''
      else ''Notifications'')"

text \<open>The object literal \<^verbatim>\<open>summaryNotification\<close> of \<^verbatim>\<open>sendGroupedNotification\<close>.\<close>

definition summaryNotification :: "string \<Rightarrow> notification list \<Rightarrow> notification" where
  "summaryNotification category notifications =
     (let count = length notifications;
          text = string_of_nat count @ '' new '' @ category @ '' notifications''
      in \<lparr> n_title = getCategoryTitle category,
           n_body = text,
           n_category = category,
           n_priority = NORMAL,
           n_data = [''type'' \<mapsto> JStr ''summary'',
                     ''category'' \<mapsto> JStr category,
                     ''count'' \<mapsto> JNum count,
                     ''notifications'' \<mapsto> JIds (map n_id notifications)],
           n_actions = None,
           n_image = None,
           n_userId = None,
           n_timestamp = None,
           n_id = None,
           n_options =
             \<lparr> opt_icon = DEFAULT_icon,
               opt_badge = DEFAULT_badge,
               opt_vibrate = DEFAULT_vibrate,
               opt_requireInteraction = False,
               opt_silent = False,
               opt_body = text,
               opt_data = [''type'' \<mapsto> JStr ''summary'',
                           ''category'' \<mapsto> JStr category,
                           ''notifications'' \<mapsto> JIds (map n_id notifications)],
               opt_actions = None,
               opt_image = None,
               opt_tag = category @ ''_summary'',
               opt_renotify = None \<rparr> \<rparr>)"

text \<open>\<^verbatim>\<open>sendGroupedNotification\<close>: one notification goes out as it is, any other count as a summary.\<close>

definition sendGroupedNotification :: "string \<Rightarrow> notification list \<Rightarrow> service \<Rightarrow> service" where
  "sendGroupedNotification category notifications s =
     (case notifications of
        [n] \<Rightarrow> sendImmediateNotification n s
      | _ \<Rightarrow> sendImmediateNotification (summaryNotification category notifications) s)"

text \<open>
  \<^verbatim>\<open>groupNotifications\<close> fills a \<^verbatim>\<open>Map\<close>, which keeps its keys in the order of
  first insertion: an association list, a new category appended at the end.
\<close>

fun group_push :: "notification \<Rightarrow> (string \<times> notification list) list \<Rightarrow> (string \<times> notification list) list" where
  "group_push n [] = [(n_category n, [n])]"
| "group_push n ((c, ns) # rest) =
     (if c = n_category n then (c, ns @ [n]) # rest else (c, ns) # group_push n rest)"

definition groupNotifications :: "notification list \<Rightarrow> (string \<times> notification list) list" where
  "groupNotifications notifications = foldl (\<lambda>grouped n. group_push n grouped) [] notifications"

text \<open>
  \<^verbatim>\<open>processBatch\<close>: nothing at all on an empty queue; otherwise the queue is copied
  and cleared, the timer handle dropped, and each group sent in the order of the map.
\<close>

definition processBatch :: "service \<Rightarrow> service" where
  "processBatch s =
     (if length (batchQueue s) = 0 then s
      else
        let batch = batchQueue s;
            s1 = s\<lparr> batchQueue := [], batchTimer := False \<rparr>;
            grouped = groupNotifications batch
        in foldl (\<lambda>st (category, notifications). sendGroupedNotification category notifications st)
             s1 grouped)"

text \<open>
  \<^verbatim>\<open>addToBatch\<close>: push, start the timer when none runs, and when the queue has
  reached \<^verbatim>\<open>BATCH_SIZE\<close> clear the timer and process the batch at once.
\<close>

definition addToBatch :: "notification \<Rightarrow> service \<Rightarrow> service" where
  "addToBatch n s =
     (let s1 = s\<lparr> batchQueue := batchQueue s @ [n] \<rparr>;
          s2 = (if \<not> batchTimer s1 then s1\<lparr> batchTimer := True \<rparr> else s1)
      in if length (batchQueue s2) \<ge> BATCH_SIZE
         then processBatch (s2\<lparr> batchTimer := False \<rparr>)
         else s2)"

text \<open>
  \<^verbatim>\<open>sendNotification\<close>. The whole body stands in a \<^verbatim>\<open>try\<close> whose
  \<^verbatim>\<open>catch\<close> returns \<^verbatim>\<open>false\<close>, so the call always yields a boolean: the result
  is the boolean together with the service after the call.
\<close>

definition sendNotification :: "call_env \<Rightarrow> notificationData \<Rightarrow> service \<Rightarrow> bool \<times> service" where
  "sendNotification env d s =
     (if \<not> shouldSendNotification (preferences s) (env_hour env) (category_of d) (priority_of d)
      then (False, s)
      else
        let n = notification_object env d;
            s1 = (if priority_of d = HIGH then sendImmediateNotification n s else addToBatch n s);
            s2 = s1\<lparr> notificationHistory := notificationHistory s1 @ [n] \<rparr>
        in (True, s2))"

text \<open>A sequence of calls, each with its own surroundings, one after the other.\<close>

fun sendAll :: "(call_env \<times> notificationData) list \<Rightarrow> service \<Rightarrow> service" where
  "sendAll [] s = s"
| "sendAll ((env, d) # calls) s = sendAll calls (snd (sendNotification env d s))"

text \<open>
  \<^verbatim>\<open>getNotificationHistory(limit = 50)\<close> returns \<^verbatim>\<open>notificationHistory.slice(-limit)\<close>:
  the last \<^verbatim>\<open>limit\<close> entries for a positive limit; \<^verbatim>\<open>slice(-0)\<close> is the whole
  list, and a negative limit \<^verbatim>\<open>-k\<close> gives \<^verbatim>\<open>slice(k)\<close>.
\<close>

definition getNotificationHistory :: "int option \<Rightarrow> service \<Rightarrow> notification list" where
  "getNotificationHistory limit s =
     (let l = (case limit of None \<Rightarrow> 50 | Some k \<Rightarrow> k);
          h = notificationHistory s
      in if l > 0 then drop (length h - nat l) h else drop (nat (- l)) h)"

subsection \<open>What is put on screen\<close>

text \<open>
  \<^verbatim>\<open>showDirectNotification\<close>: with permission granted the browser is given the
  notification's title and its \<^verbatim>\<open>options\<close> as they are; without, nothing is shown.
\<close>

definition showDirectNotification :: "string \<Rightarrow> notification \<Rightarrow> (string \<times> notification_options) option" where
  "showDirectNotification permission n =
     (if permission = ''granted'' then Some (n_title n, n_options n) else None)"

text \<open>
  The object \<^verbatim>\<open>handlePushNotification\<close> destructures: a parsed push payload, or
  the notification posted by the page. Every property but \<^verbatim>\<open>title\<close> and
  \<^verbatim>\<open>body\<close> may be missing.
\<close>

record push_data =
  pd_title :: string
  pd_body :: string
  pd_category :: "string option"
  pd_icon :: "string option"
  pd_badge :: "string option"
  pd_data :: "payload option"
  pd_actions :: "notification_action list option"
  pd_image :: "string option"
  pd_tag :: "string option"
  pd_requireInteraction :: "bool option"
  pd_silent :: "bool option"
  pd_vibrate :: "nat list option"

definition SW_VERSION :: string where
  "SW_VERSION = ''1.0.0''"

text \<open>\<^verbatim>\<open>shouldShowNotification\<close> of the service worker shows everything.\<close>

definition shouldShowNotification :: "string \<Rightarrow> payload \<Rightarrow> bool" where
  "shouldShowNotification category data = True"

text \<open>
  \<^verbatim>\<open>handlePushNotification\<close>: the title and options given to
  \<^verbatim>\<open>showNotification\<close>, or \<open>None\<close> when nothing is shown. The two numbers are the
  readings of \<^verbatim>\<open>Date.now()\<close> for the payload's timestamp and for the tag.
\<close>

definition handlePushNotification :: "nat \<Rightarrow> nat \<Rightarrow> push_data \<Rightarrow> (string \<times> notification_options) option" where
  "handlePushNotification now_data now_tag d =
     (let category = (case pd_category d of None \<Rightarrow> MESSAGE | Some c \<Rightarrow> c);
          icon = (case pd_icon d of None \<Rightarrow> DEFAULT_icon | Some i \<Rightarrow> i);
          badge = (case pd_badge d of None \<Rightarrow> DEFAULT_badge | Some b \<Rightarrow> b);
          notificationData = (case pd_data d of None \<Rightarrow> Map.empty | Some m \<Rightarrow> m);
          actions = (case pd_actions d of None \<Rightarrow> [] | Some as \<Rightarrow> as);
          requireInteraction = (case pd_requireInteraction d of None \<Rightarrow> False | Some b \<Rightarrow> b);
          silent = (case pd_silent d of None \<Rightarrow> False | Some b \<Rightarrow> b);
          vibrate = (case pd_vibrate d of None \<Rightarrow> DEFAULT_vibrate | Some v \<Rightarrow> v)
      in if \<not> shouldShowNotification category notificationData then None
         else Some (pd_title d,
           \<lparr> opt_icon = icon,
             opt_badge = badge,
             opt_vibrate = vibrate,
             opt_requireInteraction = requireInteraction,
             opt_silent = silent,
             opt_body = pd_body d,
             opt_data = notificationData(''category'' \<mapsto> JStr category,
                                         ''timestamp'' \<mapsto> JNum now_data,
                                         ''swVersion'' \<mapsto> JStr SW_VERSION),
             opt_actions = Some (take 2 actions),
             opt_image = pd_image d,
             opt_tag = (case pd_tag d of
                          None \<Rightarrow> category @ ''_'' @ string_of_nat now_tag
                        | Some t \<Rightarrow> if t = [] then category @ ''_'' @ string_of_nat now_tag else t),
             opt_renotify = Some (category = SECURITY) \<rparr>))"

text \<open>
  The message \<^verbatim>\<open>SHOW_NOTIFICATION\<close>: the service worker calls
  \<^verbatim>\<open>handlePushNotification\<close> on the posted notification object, which reads its
  top-level properties only (the object has no \<^verbatim>\<open>icon\<close>, \<^verbatim>\<open>badge\<close>,
  \<^verbatim>\<open>tag\<close>, \<^verbatim>\<open>requireInteraction\<close>, \<^verbatim>\<open>silent\<close> or \<^verbatim>\<open>vibrate\<close> there).
\<close>

definition posted_notification :: "notification \<Rightarrow> push_data" where
  "posted_notification n =
     \<lparr> pd_title = n_title n, pd_body = n_body n, pd_category = Some (n_category n),
       pd_icon = None, pd_badge = None, pd_data = Some (n_data n),
       pd_actions = n_actions n, pd_image = n_image n, pd_tag = None,
       pd_requireInteraction = None, pd_silent = None, pd_vibrate = None \<rparr>"

subsection \<open>Click routing\<close>

text \<open>
  \<^verbatim>\<open>handleNotificationClick\<close> of the service worker first determines
  \<^verbatim>\<open>targetUrl\<close> from the notification's data: it starts as \<^verbatim>\<open>'/'\<close>, a truthy
  \<^verbatim>\<open>url\<close> replaces it, otherwise the \<^verbatim>\<open>switch\<close> on the category does.
\<close>

definition targetUrl :: "payload \<Rightarrow> jsval" where
  "targetUrl data =
     (let category = data ''category''; groupId = data ''groupId''; chatId = data ''chatId'';
          messageId = data ''messageId''; url = data ''url''
      in if truthy url then the url
         else if category = Some (JStr MESSAGE) then
           (if truthy groupId then JStr (''/groups/'' @ template groupId)
            else if truthy chatId then JStr (''/chat/'' @ template chatId)
            else JStr ''/'')
         else if category = Some (JStr GROUP_INVITE) then JStr (''/groups/'' @ template groupId)
         else if category = Some (JStr MENTION) then
           JStr (''/groups/'' @ template groupId @ ''?message='' @ template messageId)
         else if category = Some (JStr SECURITY) then JStr ''/admin/security''
         else JStr ''/notifications'')"

text \<open>
  Then an open window of the application is focused and sent the target
  (\<^verbatim>\<open>NOTIFICATION_CLICK\<close>), or a new window is opened on it.
\<close>

datatype click_effect = FocusAndPost jsval | OpenWindow jsval

definition sw_handleNotificationClick :: "bool \<Rightarrow> payload \<Rightarrow> click_effect" where
  "sw_handleNotificationClick appOpen data =
     (if appOpen then FocusAndPost (targetUrl data) else OpenWindow (targetUrl data))"

text \<open>
  \<^verbatim>\<open>handleNotificationClick\<close> of the page (\<^verbatim>\<open>service.js\<close>), the click handler
  of a directly shown notification: the value assigned to \<^verbatim>\<open>window.location.href\<close>,
  \<open>None\<close> when none is assigned.
\<close>

definition service_handleNotificationClick :: "notification \<Rightarrow> string option" where
  "service_handleNotificationClick n =
     (let category = n_category n; data = n_data n
      in if category = MESSAGE then
           (if truthy (data ''groupId'') then Some (''/groups/'' @ template (data ''groupId''))
            else if truthy (data ''chatId'') then Some (''/chat/'' @ template (data ''chatId''))
            else None)
         else if category = GROUP_INVITE then Some (''/groups/'' @ template (data ''groupId''))
         else if category = MENTION then
           Some (''/groups/'' @ template (data ''groupId'') @ ''?message='' @ template (data ''messageId''))
         else Some ''/notifications'')"

subsection \<open>Sample inputs\<close>

definition sample_env :: call_env where
  "sample_env =
     \<lparr> env_hour = 12, env_now_timestamp = 1700000000000, env_now_id = 1700000000000,
       env_random = ''k3j9x0q2a'', env_now_data = 1700000000000 \<rparr>"

definition sample_request :: "string \<Rightarrow> string \<Rightarrow> string \<Rightarrow> notificationData" where
  "sample_request title category priority =
     \<lparr> nd_title = title, nd_body = ''Hello'', nd_category = Some category,
       nd_priority = Some priority, nd_data = None, nd_actions = None, nd_image = None,
       nd_userId = Some ''u1'' \<rparr>"

section \<open>Properties\<close>

subsection \<open>Frame lemmas: what each method leaves alone\<close>

lemma sendImmediateNotification_fields [simp]:
  "batchQueue (sendImmediateNotification n s) = batchQueue s"
  "batchTimer (sendImmediateNotification n s) = batchTimer s"
  "notificationHistory (sendImmediateNotification n s) = notificationHistory s"
  "preferences (sendImmediateNotification n s) = preferences s"
  "sink (sendImmediateNotification n s) = sink s @ [n]"
  by (simp_all add: sendImmediateNotification_def)

lemma sendGroupedNotification_fields [simp]:
  "batchQueue (sendGroupedNotification c ns s) = batchQueue s"
  "batchTimer (sendGroupedNotification c ns s) = batchTimer s"
  "notificationHistory (sendGroupedNotification c ns s) = notificationHistory s"
  "preferences (sendGroupedNotification c ns s) = preferences s"
  by (simp_all add: sendGroupedNotification_def split: list.splits)

lemma sendGroupedNotification_sink:
  "length (sink (sendGroupedNotification c ns s)) = Suc (length (sink s))"
  by (simp add: sendGroupedNotification_def split: list.splits)


lemma sendGroups_fields [simp]:
  "batchQueue (foldl (\<lambda>st (category, notifications). sendGroupedNotification category notifications st) s g) = batchQueue s"
  "batchTimer (foldl (\<lambda>st (category, notifications). sendGroupedNotification category notifications st) s g) = batchTimer s"
  "notificationHistory (foldl (\<lambda>st (category, notifications). sendGroupedNotification category notifications st) s g) = notificationHistory s"
  "preferences (foldl (\<lambda>st (category, notifications). sendGroupedNotification category notifications st) s g) = preferences s"
  by (induction g arbitrary: s; simp add: case_prod_beta)+

lemma sendGroups_sink_length:
  "length (sink (foldl (\<lambda>st (category, notifications). sendGroupedNotification category notifications st) s g)) = length (sink s) + length g"
  by (induction g arbitrary: s) (simp_all add: case_prod_beta sendGroupedNotification_sink)

lemma processBatch_fields [simp]:
  "batchQueue (processBatch s) = []"
  "notificationHistory (processBatch s) = notificationHistory s"
  "preferences (processBatch s) = preferences s"
  by (simp_all add: processBatch_def Let_def)

lemma processBatch_empty: "batchQueue s = [] \<Longrightarrow> processBatch s = s"
  by (simp add: processBatch_def)

lemma addToBatch_fields [simp]:
  "notificationHistory (addToBatch n s) = notificationHistory s"
  "preferences (addToBatch n s) = preferences s"
  by (simp_all add: addToBatch_def Let_def)

lemma addToBatch_below:
  "Suc (length (batchQueue s)) < BATCH_SIZE \<Longrightarrow>
   addToBatch n s = s\<lparr> batchQueue := batchQueue s @ [n], batchTimer := True \<rparr>"
  by (simp add: addToBatch_def Let_def)

lemma addToBatch_full:
  "Suc (length (batchQueue s)) \<ge> BATCH_SIZE \<Longrightarrow>
   addToBatch n s = processBatch (s\<lparr> batchQueue := batchQueue s @ [n], batchTimer := False \<rparr>)"
  by (simp add: addToBatch_def Let_def)

lemma sendNotification_preferences [simp]:
  "preferences (snd (sendNotification env d s)) = preferences s"
  by (simp add: sendNotification_def Let_def)

lemma sendNotification_history:
  "notificationHistory (snd (sendNotification env d s)) =
     (if fst (sendNotification env d s) then notificationHistory s @ [notification_object env d]
      else notificationHistory s)"
  by (simp add: sendNotification_def Let_def)

lemma sendNotification_result:
  "fst (sendNotification env d s) =
     shouldSendNotification (preferences s) (env_hour env) (category_of d) (priority_of d)"
  by (simp add: sendNotification_def Let_def)

lemma sendNotification_rejected:
  "\<not> fst (sendNotification env d s) \<Longrightarrow> snd (sendNotification env d s) = s"
  by (cases "shouldSendNotification (preferences s) (env_hour env) (category_of d) (priority_of d)")
     (simp_all add: sendNotification_def Let_def)

lemma group_push_same:
  "n_category n = c \<Longrightarrow> group_push n [(c, ns)] = [(c, ns @ [n])]"
  by simp

lemma foldl_group_push_same:
  "\<forall>n \<in> set ms. n_category n = c \<Longrightarrow>
   foldl (\<lambda>grouped n. group_push n grouped) [(c, ns)] ms = [(c, ns @ ms)]"
  by (induction ms arbitrary: ns) simp_all

lemma groupNotifications_one_category:
  "ns \<noteq> [] \<Longrightarrow> \<forall>n \<in> set ns. n_category n = c \<Longrightarrow> groupNotifications ns = [(c, ns)]"
  by (cases ns) (simp_all add: groupNotifications_def foldl_group_push_same)


lemma sendGroupedNotification_summary:
  "length ns \<noteq> 1 \<Longrightarrow>
   sendGroupedNotification c ns s = sendImmediateNotification (summaryNotification c ns) s"
  by (auto simp: sendGroupedNotification_def split: list.splits)

lemma string_of_nat_10: "string_of_nat 10 = ''10''"
  by (simp add: string_of_nat.simps digit_char_def)

lemma processBatch_one_category:
  assumes "batchQueue s \<noteq> []" and "\<forall>n \<in> set (batchQueue s). n_category n = c"
  shows "processBatch s =
         sendGroupedNotification c (batchQueue s) (s\<lparr> batchQueue := [], batchTimer := False \<rparr>)"
  using assms groupNotifications_one_category [OF assms]
  by (simp add: processBatch_def Let_def)

lemma sendNotification_enqueue:
  assumes "shouldSendNotification (preferences s) (env_hour env) (category_of d) (priority_of d)"
    and "priority_of d \<noteq> HIGH" and "Suc (length (batchQueue s)) < BATCH_SIZE"
  shows "sendNotification env d s =
         (True, s\<lparr> batchQueue := batchQueue s @ [notification_object env d], batchTimer := True,
                    notificationHistory := notificationHistory s @ [notification_object env d] \<rparr>)"
  using assms by (simp add: sendNotification_def Let_def addToBatch_below)

lemma sendNotification_flush:
  assumes "shouldSendNotification (preferences s) (env_hour env) (category_of d) (priority_of d)"
    and "priority_of d \<noteq> HIGH" and "Suc (length (batchQueue s)) \<ge> BATCH_SIZE"
  shows "sendNotification env d s =
         (True, (processBatch (s\<lparr> batchQueue := batchQueue s @ [notification_object env d],
                                   batchTimer := False \<rparr>))
                \<lparr> notificationHistory := notificationHistory s @ [notification_object env d] \<rparr>)"
  using assms by (simp add: sendNotification_def Let_def addToBatch_full)

lemma sendAll_append:
  "sendAll (xs @ ys) s = sendAll ys (sendAll xs s)"
  by (induction xs arbitrary: s) auto

lemma sendAll_preferences [simp]: "preferences (sendAll calls s) = preferences s"
  by (induction calls arbitrary: s) auto

lemma sendAll_accumulates:
  assumes "length (batchQueue s) + length calls < BATCH_SIZE"
    and "\<forall>(e, d) \<in> set calls. priority_of d \<noteq> HIGH \<and>
           shouldSendNotification (preferences s) (env_hour e) (category_of d) (priority_of d)"
  shows "sink (sendAll calls s) = sink s \<and>
         batchQueue (sendAll calls s) = batchQueue s @ map (\<lambda>(e, d). notification_object e d) calls"
  using assms
proof (induction calls arbitrary: s)
  case Nil
  then show ?case by simp
next
  case (Cons call calls)
  obtain e d where call: "call = (e, d)" by (cases call)
  from Cons.prems call have ok: "priority_of d \<noteq> HIGH"
    "shouldSendNotification (preferences s) (env_hour e) (category_of d) (priority_of d)"
    "Suc (length (batchQueue s)) < BATCH_SIZE"
    by auto
  let ?s' = "snd (sendNotification e d s)"
  have step: "?s' = s\<lparr> batchQueue := batchQueue s @ [notification_object e d], batchTimer := True,
                    notificationHistory := notificationHistory s @ [notification_object e d] \<rparr>"
    using sendNotification_enqueue [OF ok(2) ok(1) ok(3)] by simp
  have "sink (sendAll calls ?s') = sink ?s' \<and>
        batchQueue (sendAll calls ?s') = batchQueue ?s' @ map (\<lambda>(e, d). notification_object e d) calls"
  proof (rule Cons.IH)
    show "length (batchQueue ?s') + length calls < BATCH_SIZE"
      using Cons.prems(1) step by simp
    show "\<forall>(e, d) \<in> set calls. priority_of d \<noteq> HIGH \<and>
           shouldSendNotification (preferences ?s') (env_hour e) (category_of d) (priority_of d)"
      using Cons.prems(2) by simp
  qed
  then show ?case using call step by simp
qed

lemma group_push_nonempty: "group_push n g \<noteq> []"
  by (cases g) (auto split: if_splits)

lemma groupNotifications_snoc:
  "groupNotifications (ns @ [n]) = group_push n (groupNotifications ns)"
  by (simp add: groupNotifications_def)

lemma processBatch_sink_grows:
  "batchQueue s = q @ [n] \<Longrightarrow> length (sink (processBatch s)) > length (sink s)"
  using group_push_nonempty [of n "groupNotifications q"]
  by (simp add: processBatch_def Let_def sendGroups_sink_length groupNotifications_snoc)

lemma addToBatch_outcome:
  "(batchQueue (addToBatch n s) = batchQueue s @ [n] \<and> sink (addToBatch n s) = sink s)
   \<or> (batchQueue (addToBatch n s) = [] \<and> length (sink (addToBatch n s)) > length (sink s))"
proof (cases "Suc (length (batchQueue s)) < BATCH_SIZE")
  case True
  then show ?thesis by (simp add: addToBatch_below)
next
  case False
  let ?t = "s\<lparr> batchQueue := batchQueue s @ [n], batchTimer := False \<rparr>"
  have "addToBatch n s = processBatch ?t"
    using False by (simp add: addToBatch_full)
  moreover have "length (sink (processBatch ?t)) > length (sink ?t)"
    by (rule processBatch_sink_grows [of _ "batchQueue s" n]) simp
  ultimately show ?thesis by simp
qed

lemma sendAll_history:
  "notificationHistory (sendAll calls s) =
     notificationHistory s @
     map (\<lambda>(e, d). notification_object e d)
       (filter (\<lambda>(e, d). shouldSendNotification (preferences s) (env_hour e) (category_of d) (priority_of d))
          calls)"
proof (induction calls arbitrary: s)
  case Nil
  then show ?case by simp
next
  case (Cons call calls)
  obtain e d where call: "call = (e, d)" by (cases call)
  show ?case
    unfolding call
    by (simp add: Cons.IH sendNotification_history sendNotification_result)
qed

lemma getNotificationHistory_positive:
  "0 < l \<Longrightarrow> getNotificationHistory (Some l) s
              = drop (length (notificationHistory s) - nat l) (notificationHistory s)"
  by (simp add: getNotificationHistory_def Let_def)

subsection \<open>What the two display paths and the two click handlers do\<close>

text \<open>
  The options built by \<^verbatim>\<open>sendNotification\<close> set \<^verbatim>\<open>renotify\<close> from the
  priority; the service worker sets it from the category. The service worker reads the
  posted notification's top-level properties only, so a summary keeps its body on both
  paths but its tag \<^verbatim>\<open>{category}_summary\<close> on the direct one only. The click
  handler of the page has no \<^verbatim>\<open>url\<close> override and no \<^verbatim>\<open>security\<close> case, and
  assigns no location for a message without ids.
\<close>

lemma notification_object_renotify:
  "opt_renotify (n_options (notification_object env d)) = Some (priority_of d = HIGH)"
  by (simp add: notification_object_def)

lemma handlePushNotification_renotify:
  "\<exists>title options. handlePushNotification now_data now_tag d = Some (title, options)
     \<and> opt_renotify options = Some ((case pd_category d of None \<Rightarrow> MESSAGE | Some c \<Rightarrow> c) = SECURITY)"
  by (simp add: handlePushNotification_def shouldShowNotification_def Let_def)

lemma summary_shown:
  "map_option (\<lambda>shown. (opt_body (snd shown), opt_tag (snd shown)))
     (showDirectNotification ''granted'' (summaryNotification c ns))
   = Some (string_of_nat (length ns) @ '' new '' @ c @ '' notifications'', c @ ''_summary'')"
  "map_option (\<lambda>shown. (opt_body (snd shown), opt_tag (snd shown)))
     (handlePushNotification now_data now_tag (posted_notification (summaryNotification c ns)))
   = Some (string_of_nat (length ns) @ '' new '' @ c @ '' notifications'',
           c @ ''_'' @ string_of_nat now_tag)"
  by (simp_all add: showDirectNotification_def summaryNotification_def Let_def
      handlePushNotification_def shouldShowNotification_def posted_notification_def)

lemma service_click_differs:
  "service_handleNotificationClick (n\<lparr> n_category := SECURITY \<rparr>) = Some ''/notifications''"
  "service_handleNotificationClick (n\<lparr> n_category := MESSAGE, n_data := Map.empty \<rparr>) = None"
  "service_handleNotificationClick
     (n\<lparr> n_category := MESSAGE, n_data := [''url'' \<mapsto> JStr ''/custom'', ''groupId'' \<mapsto> JStr ''g1''] \<rparr>)
   = Some ''/groups/g1''"
  by (simp_all add: service_handleNotificationClick_def)

subsection \<open>The dispatcher\<close>

text \<open>
  C1, as stated, fails: \<^verbatim>\<open>sendNotification\<close> has no check of the category. On a
  fresh service (no preferences stored) a request of category \<^verbatim>\<open>bogus\<close> is accepted:
  at normal priority it returns true and is put on the batching queue, at high priority it
  is handed to the delivery sink.
\<close>

theorem unknown_category_accepted:
  "''bogus'' \<notin> set CATEGORIES
   \<and> fst (sendNotification sample_env (sample_request ''Hi'' ''bogus'' NORMAL) new_service) = True
   \<and> batchQueue (snd (sendNotification sample_env (sample_request ''Hi'' ''bogus'' NORMAL) new_service))
       = [notification_object sample_env (sample_request ''Hi'' ''bogus'' NORMAL)]
   \<and> sink (snd (sendNotification sample_env (sample_request ''Hi'' ''bogus'' HIGH) new_service))
       = [notification_object sample_env (sample_request ''Hi'' ''bogus'' HIGH)]"
  by (simp add: CATEGORIES_def sendNotification_def shouldSendNotification_def new_service_def
      Let_def sample_request_def priority_of_def addToBatch_def BATCH_SIZE_def
      sendImmediateNotification_def)

text \<open>
  C1, amended. When preferences are stored and their category table has no truthy entry
  under the request's category, \<^verbatim>\<open>sendNotification\<close> returns false and leaves the
  service as it was (nothing enqueued, nothing delivered, nothing recorded), whatever the
  priority and the do-not-disturb settings. The table stored by \<^verbatim>\<open>loadPreferences\<close>
  has no entry for \<^verbatim>\<open>bogus\<close>.
\<close>

theorem unlisted_category_rejected:
  assumes "preferences s = Some p" and "categories p = Some cm"
    and "cm (category_of d) \<noteq> Some True"
  shows "sendNotification env d s = (False, s)"
  using assms by (simp add: sendNotification_def shouldSendNotification_def)

theorem unlisted_category_rejected_witness:
  "sendNotification sample_env (sample_request ''Hi'' ''bogus'' HIGH)
     (new_service\<lparr> preferences := Some loadPreferences \<rparr>)
   = (False, new_service\<lparr> preferences := Some loadPreferences \<rparr>)"
proof -
  let ?s = "new_service\<lparr> preferences := Some loadPreferences \<rparr>"
  let ?cm = "\<lambda>c. if c \<in> set CATEGORIES \<or> c \<in> set OBJECT_PROTOTYPE_NAMES then Some True else None"
  have a: "preferences ?s = Some loadPreferences" by simp
  have b: "categories loadPreferences = Some ?cm" by (simp add: loadPreferences_def)
  have c: "?cm (category_of (sample_request ''Hi'' ''bogus'' HIGH)) \<noteq> Some True"
    by (simp add: category_of_def sample_request_def CATEGORIES_def OBJECT_PROTOTYPE_NAMES_def)
  show ?thesis
    using unlisted_category_rejected [OF a b c] .
qed

text \<open>
  C2. From an empty batching queue, nine normal-priority message requests that pass the
  preference gate deliver nothing: after each of them the sink is unchanged and the queue
  has grown by one. The tenth such request returns true and flushes once: exactly one
  notification is added to the sink, a summary whose body is
  \<^verbatim>\<open>10 new message notifications\<close> and whose tag is \<^verbatim>\<open>message_summary\<close>, and
  the queue is empty afterwards with no timer pending.
\<close>

theorem tenth_message_flushes_summary:
  assumes empty: "batchQueue s = []"
    and nine: "length calls = 9"
    and ok: "\<forall>(e, d) \<in> set (calls @ [(e10, d10)]).
               category_of d = MESSAGE \<and> priority_of d = NORMAL \<and>
               shouldSendNotification (preferences s) (env_hour e) MESSAGE NORMAL"
  shows "(\<forall>k \<le> 9. sink (sendAll (take k calls) s) = sink s \<and>
                   length (batchQueue (sendAll (take k calls) s)) = k)
       \<and> (\<exists>summary s'. sendNotification e10 d10 (sendAll calls s) = (True, s')
             \<and> sink s' = sink s @ [summary]
             \<and> summary = summaryNotification MESSAGE
                   (map (\<lambda>(e, d). notification_object e d) (calls @ [(e10, d10)]))
             \<and> n_body summary = ''10 new message notifications''
             \<and> opt_body (n_options summary) = ''10 new message notifications''
             \<and> opt_tag (n_options summary) = ''message_summary''
             \<and> batchQueue s' = [] \<and> batchTimer s' = False)"
proof (intro conjI allI impI)
  fix k :: nat
  assume k: "k \<le> 9"
  have okc: "priority_of d \<noteq> HIGH \<and>
      shouldSendNotification (preferences s) (env_hour e) (category_of d) (priority_of d)"
    if "(e, d) \<in> set calls" for e d
    using ok that by auto
  have "sink (sendAll (take k calls) s) = sink s \<and>
        batchQueue (sendAll (take k calls) s) =
          batchQueue s @ map (\<lambda>(e, d). notification_object e d) (take k calls)"
  proof (rule sendAll_accumulates)
    show "length (batchQueue s) + length (take k calls) < BATCH_SIZE"
      using empty nine k by (simp add: BATCH_SIZE_def)
    show "\<forall>(e, d) \<in> set (take k calls). priority_of d \<noteq> HIGH \<and>
           shouldSendNotification (preferences s) (env_hour e) (category_of d) (priority_of d)"
      using okc by (auto dest!: in_set_takeD)
  qed
  then show "sink (sendAll (take k calls) s) = sink s"
    and "length (batchQueue (sendAll (take k calls) s)) = k"
    using empty nine k by simp_all
next
  let ?q = "map (\<lambda>(e, d). notification_object e d) calls"
  let ?s9 = "sendAll calls s"
  let ?n = "notification_object e10 d10"
  have acc: "sink ?s9 = sink s \<and> batchQueue ?s9 = batchQueue s @ ?q"
  proof (rule sendAll_accumulates)
    show "length (batchQueue s) + length calls < BATCH_SIZE"
      using empty nine by (simp add: BATCH_SIZE_def)
    show "\<forall>(e, d) \<in> set calls. priority_of d \<noteq> HIGH \<and>
           shouldSendNotification (preferences s) (env_hour e) (category_of d) (priority_of d)"
      using ok by auto
  qed
  have q9: "batchQueue ?s9 = ?q" and sink9: "sink ?s9 = sink s"
    using acc empty by simp_all
  have gate: "shouldSendNotification (preferences ?s9) (env_hour e10) (category_of d10) (priority_of d10)"
    and prio: "priority_of d10 \<noteq> HIGH" and cat10: "category_of d10 = MESSAGE"
    using ok by auto
  have full: "Suc (length (batchQueue ?s9)) \<ge> BATCH_SIZE"
    using q9 nine by (simp add: BATCH_SIZE_def)
  let ?t = "?s9\<lparr> batchQueue := batchQueue ?s9 @ [?n], batchTimer := False \<rparr>"
  have cats: "\<forall>n \<in> set (batchQueue ?t). n_category n = MESSAGE"
    using ok q9 cat10 by (auto simp: notification_object_def)
  have len: "length (batchQueue ?t) = 10"
    using q9 nine by simp
  have ne: "batchQueue ?t \<noteq> []" by simp
  let ?summary = "summaryNotification MESSAGE (batchQueue ?t)"
  have pb: "processBatch ?t =
              sendImmediateNotification ?summary (?t\<lparr> batchQueue := [], batchTimer := False \<rparr>)"
    using processBatch_one_category [OF ne cats] len
    by (simp add: sendGroupedNotification_summary)
  let ?s' = "(processBatch ?t)\<lparr> notificationHistory := notificationHistory ?s9 @ [?n] \<rparr>"
  have send: "sendNotification e10 d10 ?s9 = (True, ?s')"
    using sendNotification_flush [OF gate prio full] by simp
  have body: "n_body ?summary = ''10 new message notifications''"
    "opt_body (n_options ?summary) = ''10 new message notifications''"
    "opt_tag (n_options ?summary) = ''message_summary''"
    using len by (simp_all add: summaryNotification_def Let_def string_of_nat_10)
  have "sink ?s' = sink s @ [?summary]" "batchQueue ?s' = []" "batchTimer ?s' = False"
    using pb sink9 by simp_all
  moreover have "?summary = summaryNotification MESSAGE
                   (map (\<lambda>(e, d). notification_object e d) (calls @ [(e10, d10)]))"
    using q9 by simp
  ultimately
  show "\<exists>summary s'. sendNotification e10 d10 (sendAll calls s) = (True, s')
             \<and> sink s' = sink s @ [summary]
             \<and> summary = summaryNotification MESSAGE
                   (map (\<lambda>(e, d). notification_object e d) (calls @ [(e10, d10)]))
             \<and> n_body summary = ''10 new message notifications''
             \<and> opt_body (n_options summary) = ''10 new message notifications''
             \<and> opt_tag (n_options summary) = ''message_summary''
             \<and> batchQueue s' = [] \<and> batchTimer s' = False"
    using send body by blast
qed



theorem tenth_message_flushes_summary_witness:
  "\<exists>summary s'.
     sendNotification sample_env (sample_request ''Hi'' MESSAGE NORMAL)
       (sendAll (replicate 9 (sample_env, sample_request ''Hi'' MESSAGE NORMAL)) new_service) = (True, s')
     \<and> sink s' = [summary]
     \<and> n_body summary = ''10 new message notifications''
     \<and> opt_tag (n_options summary) = ''message_summary''
     \<and> batchQueue s' = []"
proof -
  let ?c = "(sample_env, sample_request ''Hi'' MESSAGE NORMAL)"
  have e: "batchQueue new_service = []" and sk: "sink new_service = []"
    by (simp_all add: new_service_def)
  have n: "length (replicate 9 ?c) = 9" by simp
  have ok: "\<forall>(e, d) \<in> set (replicate 9 ?c @ [?c]).
              category_of d = MESSAGE \<and> priority_of d = NORMAL \<and>
              shouldSendNotification (preferences new_service) (env_hour e) MESSAGE NORMAL"
    by (simp add: sample_request_def category_of_def priority_of_def new_service_def
        shouldSendNotification_def)
  show ?thesis
    using tenth_message_flushes_summary [OF e n ok] sk by auto
qed

text \<open>
  C3. With do-not-disturb switched on and the window start = 22, end = 8 stored, and the
  request's category enabled (no category table stored, or the table maps it to true), the
  gate at local hour 23 admits a request exactly when its priority is high (so a normal or
  low request is suppressed and a high one passes), and at hour 12 it admits every request
  whatever its priority. For every stored window, the in-window test is
  start <= end ? (hour >= start && hour < end) : (hour >= start || hour < end).
\<close>

theorem dnd_wraparound_gate:
  assumes dnd: "doNotDisturb p"
    and win: "doNotDisturbSchedule p = Some \<lparr> sched_start = 22, sched_end = 8 \<rparr>"
    and cat: "categories p = None \<or> (\<exists>cm. categories p = Some cm \<and> cm c = Some True)"
  shows "shouldSendNotification (Some p) 23 c NORMAL = False
       \<and> shouldSendNotification (Some p) 23 c HIGH = True
       \<and> shouldSendNotification (Some p) 23 c pr = (pr = HIGH)
       \<and> shouldSendNotification (Some p) 12 c pr = True
       \<and> isDoNotDisturbTime (Some (q\<lparr> doNotDisturbSchedule := Some \<lparr> sched_start = s, sched_end = e \<rparr> \<rparr>)) h
           = (if s \<le> e then h \<ge> s \<and> h < e else h \<ge> s \<or> h < e)"
proof -
  have in23: "isDoNotDisturbTime (Some p) 23"
    using win by (simp add: isDoNotDisturbTime_def)
  have out12: "\<not> isDoNotDisturbTime (Some p) 12"
    using win by (simp add: isDoNotDisturbTime_def)
  have gate23: "shouldSendNotification (Some p) 23 c x = (x = HIGH)" for x
    using dnd cat in23 by (auto simp: shouldSendNotification_def)
  have gate12: "shouldSendNotification (Some p) 12 c pr"
    using cat out12 by (auto simp: shouldSendNotification_def)
  have window: "isDoNotDisturbTime (Some (q\<lparr> doNotDisturbSchedule := Some \<lparr> sched_start = s, sched_end = e \<rparr> \<rparr>)) h
           = (if s \<le> e then h \<ge> s \<and> h < e else h \<ge> s \<or> h < e)"
    by (simp add: isDoNotDisturbTime_def)
  show ?thesis
    using gate23 [of NORMAL] gate23 [of HIGH] gate23 [of pr] gate12 window by simp
qed

theorem dnd_wraparound_gate_witness:
  "shouldSendNotification (Some (loadPreferences\<lparr> doNotDisturb := True \<rparr>)) 23 MESSAGE NORMAL = False
   \<and> shouldSendNotification (Some (loadPreferences\<lparr> doNotDisturb := True \<rparr>)) 23 MESSAGE HIGH = True
   \<and> shouldSendNotification (Some (loadPreferences\<lparr> doNotDisturb := True \<rparr>)) 12 MESSAGE LOW = True"
proof -
  let ?p = "loadPreferences\<lparr> doNotDisturb := True \<rparr>"
  have d: "doNotDisturb ?p" by simp
  have w: "doNotDisturbSchedule ?p = Some \<lparr> sched_start = 22, sched_end = 8 \<rparr>"
    by (simp add: loadPreferences_def)
  have c: "categories ?p = None \<or> (\<exists>cm. categories ?p = Some cm \<and> cm MESSAGE = Some True)"
    by (simp add: loadPreferences_def CATEGORIES_def)
  show ?thesis
    using dnd_wraparound_gate [OF d w c, of LOW] by simp
qed

text \<open>
  C4. A single notification should carry \<^verbatim>\<open>renotify = true\<close> exactly when its
  category is security. The dispatcher does otherwise: a high-priority request of category
  \<^verbatim>\<open>message\<close> on a fresh service is handed to the sink with \<^verbatim>\<open>renotify = true\<close>
  in its options, which is what the direct display shows, while the service worker, given
  the same notification, shows it with \<^verbatim>\<open>renotify = false\<close>.
\<close>

theorem high_priority_message_renotify:
  "sink (snd (sendNotification sample_env (sample_request ''Hi'' MESSAGE HIGH) new_service))
     = [notification_object sample_env (sample_request ''Hi'' MESSAGE HIGH)]
   \<and> n_category (notification_object sample_env (sample_request ''Hi'' MESSAGE HIGH)) = MESSAGE
   \<and> opt_renotify (n_options (notification_object sample_env (sample_request ''Hi'' MESSAGE HIGH)))
       = Some True
   \<and> map_option (\<lambda>shown. opt_renotify (snd shown))
       (showDirectNotification ''granted''
          (notification_object sample_env (sample_request ''Hi'' MESSAGE HIGH))) = Some (Some True)
   \<and> map_option (\<lambda>shown. opt_renotify (snd shown))
       (handlePushNotification 1700000000001 1700000000001
          (posted_notification (notification_object sample_env (sample_request ''Hi'' MESSAGE HIGH))))
       = Some (Some False)"
  by (simp add: sendNotification_def shouldSendNotification_def new_service_def Let_def
      sample_request_def priority_of_def category_of_def sendImmediateNotification_def
      notification_object_def showDirectNotification_def handlePushNotification_def
      shouldShowNotification_def posted_notification_def)

subsection \<open>Click routing\<close>

text \<open>
  C5, as stated, fails: for a message with neither \<^verbatim>\<open>groupId\<close> nor
  \<^verbatim>\<open>chatId\<close> the service worker's target is \<^verbatim>\<open>/\<close>, the initial value of
  \<^verbatim>\<open>targetUrl\<close>, not \<^verbatim>\<open>/notifications\<close>.
\<close>

theorem message_without_ids_opens_root:
  "targetUrl [''category'' \<mapsto> JStr MESSAGE] = JStr ''/''
   \<and> targetUrl [''category'' \<mapsto> JStr MESSAGE] \<noteq> JStr ''/notifications''"
  by (simp add: targetUrl_def)

text \<open>
  C5, amended. For every payload without a truthy \<^verbatim>\<open>url\<close>, the service worker's
  click resolution gives: message with a truthy groupId, \<^verbatim>\<open>/groups/{groupId}\<close>;
  message with a truthy chatId and no groupId, \<^verbatim>\<open>/chat/{chatId}\<close>; message with
  neither, \<^verbatim>\<open>/\<close>; group_invite, \<^verbatim>\<open>/groups/{groupId}\<close>; mention,
  \<^verbatim>\<open>/groups/{groupId}?message={messageId}\<close>; security, \<^verbatim>\<open>/admin/security\<close>;
  every other category (system, file_share, an unknown or missing one)
  \<^verbatim>\<open>/notifications\<close>.
\<close>

theorem click_routing_table:
  assumes nourl: "\<not> truthy (data ''url'')"
  shows "(data ''category'' = Some (JStr MESSAGE) \<and> truthy (data ''groupId'') \<longrightarrow>
            targetUrl data = JStr (''/groups/'' @ template (data ''groupId'')))
       \<and> (data ''category'' = Some (JStr MESSAGE) \<and> \<not> truthy (data ''groupId'')
            \<and> truthy (data ''chatId'') \<longrightarrow>
            targetUrl data = JStr (''/chat/'' @ template (data ''chatId'')))
       \<and> (data ''category'' = Some (JStr MESSAGE) \<and> \<not> truthy (data ''groupId'')
            \<and> \<not> truthy (data ''chatId'') \<longrightarrow>
            targetUrl data = JStr ''/'')
       \<and> (data ''category'' = Some (JStr GROUP_INVITE) \<longrightarrow>
            targetUrl data = JStr (''/groups/'' @ template (data ''groupId'')))
       \<and> (data ''category'' = Some (JStr MENTION) \<longrightarrow>
            targetUrl data = JStr (''/groups/'' @ template (data ''groupId'')
                                    @ ''?message='' @ template (data ''messageId'')))
       \<and> (data ''category'' = Some (JStr SECURITY) \<longrightarrow>
            targetUrl data = JStr ''/admin/security'')
       \<and> (data ''category'' \<noteq> Some (JStr MESSAGE) \<and> data ''category'' \<noteq> Some (JStr GROUP_INVITE)
            \<and> data ''category'' \<noteq> Some (JStr MENTION) \<and> data ''category'' \<noteq> Some (JStr SECURITY) \<longrightarrow>
            targetUrl data = JStr ''/notifications'')"
proof (intro conjI impI)
  show "targetUrl data = JStr (''/groups/'' @ template (data ''groupId''))"
    if "data ''category'' = Some (JStr MESSAGE) \<and> truthy (data ''groupId'')"
    using that nourl by (simp add: targetUrl_def)
  show "targetUrl data = JStr (''/chat/'' @ template (data ''chatId''))"
    if "data ''category'' = Some (JStr MESSAGE) \<and> \<not> truthy (data ''groupId'') \<and> truthy (data ''chatId'')"
    using that nourl by (simp add: targetUrl_def)
  show "targetUrl data = JStr ''/''"
    if "data ''category'' = Some (JStr MESSAGE) \<and> \<not> truthy (data ''groupId'') \<and> \<not> truthy (data ''chatId'')"
    using that nourl by (simp add: targetUrl_def)
  show "targetUrl data = JStr (''/groups/'' @ template (data ''groupId''))"
    if "data ''category'' = Some (JStr GROUP_INVITE)"
    using that nourl by (simp add: targetUrl_def)
  show "targetUrl data = JStr (''/groups/'' @ template (data ''groupId'')
                                    @ ''?message='' @ template (data ''messageId''))"
    if "data ''category'' = Some (JStr MENTION)"
    using that nourl by (simp add: targetUrl_def)
  show "targetUrl data = JStr ''/admin/security''"
    if "data ''category'' = Some (JStr SECURITY)"
    using that nourl by (simp add: targetUrl_def)
  show "targetUrl data = JStr ''/notifications''"
    if "data ''category'' \<noteq> Some (JStr MESSAGE) \<and> data ''category'' \<noteq> Some (JStr GROUP_INVITE)
            \<and> data ''category'' \<noteq> Some (JStr MENTION) \<and> data ''category'' \<noteq> Some (JStr SECURITY)"
    using that nourl by (simp add: targetUrl_def)
qed

theorem click_routing_table_witness:
  "targetUrl [''category'' \<mapsto> JStr MENTION, ''groupId'' \<mapsto> JStr ''g1'', ''messageId'' \<mapsto> JStr ''m1'']
     = JStr ''/groups/g1?message=m1''
   \<and> targetUrl [''category'' \<mapsto> JStr SYSTEM] = JStr ''/notifications''
   \<and> targetUrl [''category'' \<mapsto> JStr MESSAGE, ''chatId'' \<mapsto> JStr ''c7''] = JStr ''/chat/c7''"
proof -
  let ?a = "[''category'' \<mapsto> JStr MENTION, ''groupId'' \<mapsto> JStr ''g1'', ''messageId'' \<mapsto> JStr ''m1'']"
  let ?b = "[''category'' \<mapsto> JStr SYSTEM]"
  let ?c = "[''category'' \<mapsto> JStr MESSAGE, ''chatId'' \<mapsto> JStr ''c7'']"
  have a: "\<not> truthy (?a ''url'')" and b: "\<not> truthy (?b ''url'')" and c: "\<not> truthy (?c ''url'')"
    by simp_all
  show ?thesis
    using click_routing_table [of ?a] click_routing_table [of ?b] click_routing_table [of ?c] a b c
    by simp
qed

text \<open>
  C6, as stated, fails: a payload whose \<^verbatim>\<open>url\<close> field is the empty string
  contains a url field, yet \<^verbatim>\<open>if (url)\<close> is false for it and the category decides.
\<close>

theorem empty_url_not_returned:
  "[''category'' \<mapsto> JStr SECURITY, ''url'' \<mapsto> JStr []] ''url'' = Some (JStr [])
   \<and> targetUrl [''category'' \<mapsto> JStr SECURITY, ''url'' \<mapsto> JStr []] = JStr ''/admin/security''"
  by (simp add: targetUrl_def)

text \<open>
  C6, amended. For every category and every payload whose \<^verbatim>\<open>url\<close> is truthy (a
  non-empty string), the service worker's click resolution is that url as it is,
  whatever the category and the other fields; it is the target posted to an open window
  or opened in a new one.
\<close>

theorem url_override:
  assumes "data ''url'' = Some u" and "truthy (Some u)"
  shows "targetUrl data = u
       \<and> sw_handleNotificationClick True data = FocusAndPost u
       \<and> sw_handleNotificationClick False data = OpenWindow u"
  using assms by (simp add: targetUrl_def sw_handleNotificationClick_def)

theorem url_override_witness:
  "targetUrl [''category'' \<mapsto> JStr SECURITY, ''groupId'' \<mapsto> JStr ''g1'', ''url'' \<mapsto> JStr ''/custom'']
     = JStr ''/custom''"
proof -
  let ?d = "[''category'' \<mapsto> JStr SECURITY, ''groupId'' \<mapsto> JStr ''g1'', ''url'' \<mapsto> JStr ''/custom'']"
  have a: "?d ''url'' = Some (JStr ''/custom'')" by simp
  have b: "truthy (Some (JStr ''/custom''))" by simp
  show ?thesis using url_override [of ?d "JStr ''/custom''"] a b by simp
qed

subsection \<open>Title, history, flushing, actions\<close>

text \<open>
  C7, as stated, fails: \<^verbatim>\<open>sendNotification\<close> does not look at the title. On a
  fresh service a request with the empty title is accepted: at normal priority it returns
  true and is put on the batching queue, at high priority it is handed to the sink.
\<close>

theorem empty_title_accepted:
  "fst (sendNotification sample_env (sample_request [] MESSAGE NORMAL) new_service) = True
   \<and> batchQueue (snd (sendNotification sample_env (sample_request [] MESSAGE NORMAL) new_service))
       = [notification_object sample_env (sample_request [] MESSAGE NORMAL)]
   \<and> n_title (notification_object sample_env (sample_request [] MESSAGE NORMAL)) = []
   \<and> sink (snd (sendNotification sample_env (sample_request [] MESSAGE HIGH) new_service))
       = [notification_object sample_env (sample_request [] MESSAGE HIGH)]"
  by (simp add: sendNotification_def shouldSendNotification_def new_service_def
      Let_def sample_request_def priority_of_def addToBatch_def BATCH_SIZE_def
      sendImmediateNotification_def notification_object_def)

text \<open>
  C7, amended. A request whose title is the empty string is treated as any other, and
  the call always returns a boolean (it never throws). With the browser's display calls
  succeeding, it returns false, leaving the
  service as it was, exactly when the preference gate rejects its category and priority.
  Otherwise it returns true and the notification with the empty title is appended to the
  history; at high priority it is handed to the sink and the queue is untouched, at any
  other priority it is appended to the queue, or the queue is flushed (left empty, with at
  least one delivery).
\<close>

theorem empty_title_not_validated:
  assumes "nd_title d = []"
  shows "fst (sendNotification env d s)
           = shouldSendNotification (preferences s) (env_hour env) (category_of d) (priority_of d)
       \<and> (\<not> fst (sendNotification env d s) \<longrightarrow> snd (sendNotification env d s) = s)
       \<and> (fst (sendNotification env d s) \<longrightarrow>
            n_title (notification_object env d) = []
          \<and> notificationHistory (snd (sendNotification env d s))
              = notificationHistory s @ [notification_object env d]
          \<and> (priority_of d = HIGH \<longrightarrow>
               sink (snd (sendNotification env d s)) = sink s @ [notification_object env d]
               \<and> batchQueue (snd (sendNotification env d s)) = batchQueue s)
          \<and> (priority_of d \<noteq> HIGH \<longrightarrow>
               (batchQueue (snd (sendNotification env d s)) = batchQueue s @ [notification_object env d]
                \<and> sink (snd (sendNotification env d s)) = sink s)
               \<or> (batchQueue (snd (sendNotification env d s)) = []
                  \<and> length (sink (snd (sendNotification env d s))) > length (sink s))))"
proof (intro conjI impI)
  show "fst (sendNotification env d s)
           = shouldSendNotification (preferences s) (env_hour env) (category_of d) (priority_of d)"
    by (rule sendNotification_result)
  show "snd (sendNotification env d s) = s" if "\<not> fst (sendNotification env d s)"
    using that by (rule sendNotification_rejected)
  show "n_title (notification_object env d) = []"
    using assms by (simp add: notification_object_def)
  show "notificationHistory (snd (sendNotification env d s))
              = notificationHistory s @ [notification_object env d]"
    if "fst (sendNotification env d s)"
    using that by (simp add: sendNotification_history)
  show "sink (snd (sendNotification env d s)) = sink s @ [notification_object env d]"
    if "fst (sendNotification env d s)" "priority_of d = HIGH"
    using that by (simp add: sendNotification_def Let_def split: if_splits)
  show "batchQueue (snd (sendNotification env d s)) = batchQueue s"
    if "fst (sendNotification env d s)" "priority_of d = HIGH"
    using that by (simp add: sendNotification_def Let_def split: if_splits)
  show "(batchQueue (snd (sendNotification env d s)) = batchQueue s @ [notification_object env d]
                \<and> sink (snd (sendNotification env d s)) = sink s)
               \<or> (batchQueue (snd (sendNotification env d s)) = []
                  \<and> length (sink (snd (sendNotification env d s))) > length (sink s))"
    if "fst (sendNotification env d s)" "priority_of d \<noteq> HIGH"
    using that addToBatch_outcome [of "notification_object env d" s]
    by (simp add: sendNotification_def Let_def split: if_splits)
qed

theorem empty_title_not_validated_witness:
  "fst (sendNotification sample_env (sample_request [] MESSAGE HIGH) new_service)
   \<and> sink (snd (sendNotification sample_env (sample_request [] MESSAGE HIGH) new_service))
       = [notification_object sample_env (sample_request [] MESSAGE HIGH)]
   \<and> n_title (notification_object sample_env (sample_request [] MESSAGE HIGH)) = []"
proof -
  let ?d = "sample_request [] MESSAGE HIGH"
  have t: "nd_title ?d = []" by (simp add: sample_request_def)
  have g: "shouldSendNotification (preferences new_service) (env_hour sample_env)
             (category_of ?d) (priority_of ?d)"
    by (simp add: shouldSendNotification_def new_service_def)
  have h: "priority_of ?d = HIGH" by (simp add: priority_of_def sample_request_def)
  have k: "sink new_service = []" by (simp add: new_service_def)
  show ?thesis
    using empty_title_not_validated [OF t, of sample_env new_service] g h k by simp
qed

text \<open>
  C8, as stated, fails: no number bounds the length of the history. On a fresh service,
  for every bound there is a sequence of calls after which the history is longer.
\<close>

theorem history_not_bounded:
  "\<not> (\<exists>B. \<forall>calls. length (notificationHistory (sendAll calls new_service)) \<le> B)"
proof
  assume "\<exists>B. \<forall>calls. length (notificationHistory (sendAll calls new_service)) \<le> B"
  then obtain B where B: "\<And>calls. length (notificationHistory (sendAll calls new_service)) \<le> B"
    by blast
  let ?cs = "replicate (Suc B) (sample_env, sample_request ''Hi'' MESSAGE NORMAL)"
  have p: "preferences new_service = None" and h: "notificationHistory new_service = []"
    by (simp_all add: new_service_def)
  have "length (notificationHistory (sendAll ?cs new_service)) = Suc B"
    unfolding sendAll_history p h by (simp add: shouldSendNotification_def)
  with B [of ?cs] show False by simp
qed

text \<open>
  C8, amended. The history is not capped: after any sequence of calls it is the old
  history followed by the notification of every accepted call, in order, none dropped.
  Only the reader \<^verbatim>\<open>getNotificationHistory(limit)\<close> is bounded: for a positive limit
  it returns the last \<^verbatim>\<open>limit\<close> entries, so at most \<^verbatim>\<open>limit\<close> of them, and at
  most 50 with the default.
\<close>

theorem history_keeps_every_accepted:
  "notificationHistory (sendAll calls s) =
     notificationHistory s @
     map (\<lambda>(e, d). notification_object e d)
       (filter (\<lambda>(e, d). shouldSendNotification (preferences s) (env_hour e) (category_of d) (priority_of d))
          calls)
   \<and> (0 < l \<longrightarrow>
        getNotificationHistory (Some l) s
          = drop (length (notificationHistory s) - nat l) (notificationHistory s)
        \<and> length (getNotificationHistory (Some l) s) \<le> nat l)
   \<and> length (getNotificationHistory None s) \<le> 50"
proof (intro conjI impI)
  show "notificationHistory (sendAll calls s) =
     notificationHistory s @
     map (\<lambda>(e, d). notification_object e d)
       (filter (\<lambda>(e, d). shouldSendNotification (preferences s) (env_hour e) (category_of d) (priority_of d))
          calls)"
    by (rule sendAll_history)
  show "getNotificationHistory (Some l) s
          = drop (length (notificationHistory s) - nat l) (notificationHistory s)" if "0 < l"
    using that by (rule getNotificationHistory_positive)
  show "length (getNotificationHistory (Some l) s) \<le> nat l" if "0 < l"
    using that by (simp add: getNotificationHistory_positive)
  show "length (getNotificationHistory None s) \<le> 50"
    by (simp add: getNotificationHistory_def Let_def)
qed

theorem history_keeps_every_accepted_witness:
  "length (notificationHistory
     (sendAll (replicate 3 (sample_env, sample_request ''Hi'' MESSAGE NORMAL)) new_service)) = 3
   \<and> length (getNotificationHistory (Some 2)
       (sendAll (replicate 3 (sample_env, sample_request ''Hi'' MESSAGE NORMAL)) new_service)) \<le> 2"
proof -
  let ?cs = "replicate 3 (sample_env, sample_request ''Hi'' MESSAGE NORMAL)"
  have p: "preferences new_service = None" and h: "notificationHistory new_service = []"
    by (simp_all add: new_service_def)
  show ?thesis
    using history_keeps_every_accepted [of ?cs new_service 2]
      history_keeps_every_accepted [of "[]" "sendAll ?cs new_service" 2] p h
    by (simp add: shouldSendNotification_def)
qed

text \<open>
  C9. Flushing an empty queue does nothing: \<^verbatim>\<open>processBatch\<close> returns the service
  unchanged, so nothing is delivered. Every flush leaves the queue empty, hence a second
  flush right after any flush changes nothing and delivers nothing.
\<close>

theorem processBatch_idempotent:
  "(batchQueue s = [] \<longrightarrow> processBatch s = s \<and> sink (processBatch s) = sink s)
   \<and> batchQueue (processBatch s) = []
   \<and> processBatch (processBatch s) = processBatch s
   \<and> sink (processBatch (processBatch s)) = sink (processBatch s)"
  by (simp add: processBatch_empty)

theorem processBatch_idempotent_witness:
  "batchQueue new_service = [] \<and> processBatch new_service = new_service
   \<and> sink (processBatch new_service) = []"
  using processBatch_idempotent [of new_service] by (simp add: new_service_def)

text \<open>
  C10. For every push payload, \<^verbatim>\<open>handlePushNotification\<close> shows a notification
  whose actions are the first two of the payload's actions (none when the payload has no
  actions): at most two, for every list of actions.
\<close>

theorem handlePushNotification_two_actions:
  "\<exists>title options shown.
     handlePushNotification now_data now_tag d = Some (title, options)
     \<and> opt_actions options = Some shown
     \<and> shown = take 2 (case pd_actions d of None \<Rightarrow> [] | Some as \<Rightarrow> as)
     \<and> length shown \<le> 2"
  by (simp add: handlePushNotification_def shouldShowNotification_def Let_def)

end
